theory Spec2Isabelle
  imports Main
begin

section \<open>The geocoder control directive of ngx-mapbox-gl\<close>

text \<open>
  A shallow embedding of \<^verbatim>\<open>geocoder-control.directive.ts\<close>. The directive is a
  record of its fields; the collaborators it talks to (the geocoder widget, the
  control component, the map service, the zone, the deprecation logger) are records
  and logs of the calls they receive. Every handler of the source is a function from
  the state of the world to an outcome: the new state, or the error thrown and the
  state at the throw.
\<close>

subsection \<open>JavaScript values\<close>

text \<open>
  The values an option or a change record can hold. Numbers are integers here: no
  function of the directive computes with them. Functions, the map library handle
  and marker objects are opaque references.
\<close>

datatype jsval =
    Undefined
  | Null
  | JBool bool
  | JNum int
  | JStr string
  | JBbox int int int int
  | JLngLat int int
  | JRef nat

text \<open>What \<^verbatim>\<open>if (v)\<close> and \<^verbatim>\<open>v || w\<close> test.\<close>

fun truthy :: "jsval \<Rightarrow> bool" where
  "truthy Undefined = False"
| "truthy Null = False"
| "truthy (JBool b) = b"
| "truthy (JNum n) = (n \<noteq> 0)"
| "truthy (JStr s) = (s \<noteq> [])"
| "truthy (JBbox a b c d) = True"
| "truthy (JLngLat a b) = True"
| "truthy (JRef r) = True"

definition js_or :: "jsval \<Rightarrow> jsval \<Rightarrow> jsval" where
  "js_or a b = (if truthy a then a else b)"

text \<open>An optional field \<^verbatim>\<open>x?: T\<close> is \<open>None\<close> while it is undefined.\<close>

definition opt_val :: "('a \<Rightarrow> jsval) \<Rightarrow> 'a option \<Rightarrow> jsval" where
  "opt_val f x = (case x of None \<Rightarrow> Undefined | Some v \<Rightarrow> f v)"

definition bbox_val :: "int \<times> int \<times> int \<times> int \<Rightarrow> jsval" where
  "bbox_val b = (case b of (x1, y1, x2, y2) \<Rightarrow> JBbox x1 y1 x2 y2)"

definition lnglat_val :: "int \<times> int \<Rightarrow> jsval" where
  "lnglat_val p = (case p of (lng, lat) \<Rightarrow> JLngLat lng lat)"

text \<open>\<^verbatim>\<open>marker: boolean | Marker\<close>.\<close>

datatype marker_input = MarkerFlag bool | MarkerInstance nat

fun marker_val :: "marker_input \<Rightarrow> jsval" where
  "marker_val (MarkerFlag b) = JBool b"
| "marker_val (MarkerInstance r) = JRef r"

subsection \<open>Objects as property lists\<close>

text \<open>
  \<^verbatim>\<open>GeocoderOptions\<close>: an object literal is the list of its properties in the order
  they are written, which is the order \<^verbatim>\<open>Object.keys\<close> enumerates them.
\<close>

type_synonym options = "(string \<times> jsval) list"

definition object_keys :: "options \<Rightarrow> string list" where
  "object_keys obj = map fst obj"

definition get_prop :: "options \<Rightarrow> string \<Rightarrow> jsval" where
  "get_prop obj k = (case map_of obj k of None \<Rightarrow> Undefined | Some v \<Rightarrow> v)"

definition delete_prop :: "string \<Rightarrow> options \<Rightarrow> options" where
  "delete_prop k obj = filter (\<lambda>kv. fst kv \<noteq> k) obj"

definition has_key :: "options \<Rightarrow> string \<Rightarrow> bool" where
  "has_key obj k = (k \<in> set (object_keys obj))"

subsection \<open>Events and emitters\<close>

text \<open>\<^verbatim>\<open>Result.id\<close> is a string or a number when it is there.\<close>

datatype result_id = IdStr string | IdNum int

text \<open>
  The payloads of the five widget events. A results collection, a result feature
  and an error are opaque; a result event carries the \<^verbatim>\<open>id\<close> of its feature.
\<close>

datatype evt =
    ResultsEvt nat
  | ResultEvt "result_id option" nat
  | ErrorEvt nat
  | LoadingEvt string
  | ClearEvt

fun kind_of :: "evt \<Rightarrow> string" where
  "kind_of (ResultsEvt p) = ''results''"
| "kind_of (ResultEvt i p) = ''result''"
| "kind_of (ErrorEvt p) = ''error''"
| "kind_of (LoadingEvt q) = ''loading''"
| "kind_of ClearEvt = ''clear''"

fun evt_id :: "evt \<Rightarrow> result_id option" where
  "evt_id (ResultEvt i p) = i"
| "evt_id e = None"

text \<open>An \<^verbatim>\<open>EventEmitter\<close>: how many observers it has and what it has emitted.\<close>

record emitter =
  observers :: nat
  emitted :: "evt list"

definition observed :: "emitter \<Rightarrow> bool" where
  "observed em = (0 < observers em)"

definition emit :: "evt \<Rightarrow> emitter \<Rightarrow> emitter" where
  "emit e em = em\<lparr>emitted := emitted em @ [e]\<rparr>"

text \<open>\<^verbatim>\<open>interface GeocoderEvent\<close>.\<close>

record GeocoderEvent =
  clear :: emitter
  loading :: emitter
  results :: emitter
  result :: emitter
  error :: emitter
  geocoderResults :: emitter
  geocoderResult :: emitter
  geocoderError :: emitter

subsection \<open>The widget\<close>

text \<open>
  \<^verbatim>\<open>MapboxGeocoder\<close> is an external library. The model keeps what the directive
  hands it: the options of its constructor, the event kinds registered with
  \<^verbatim>\<open>on\<close>, and the calls of \<^verbatim>\<open>query\<close> and \<^verbatim>\<open>setProximity\<close>, in order.
\<close>

datatype call = Query "string option" | SetProximity jsval

record widget =
  wid :: nat
  woptions :: options
  handlers :: "string list"
  calls :: "call list"

definition new_MapboxGeocoder :: "nat \<Rightarrow> options \<Rightarrow> widget" where
  "new_MapboxGeocoder i opts = \<lparr>wid = i, woptions = opts, handlers = [], calls = []\<rparr>"

definition on :: "string \<Rightarrow> widget \<Rightarrow> widget" where
  "on k g = g\<lparr>handlers := handlers g @ [k]\<rparr>"

definition query :: "string option \<Rightarrow> widget \<Rightarrow> widget" where
  "query q g = g\<lparr>calls := calls g @ [Query q]\<rparr>"

definition setProximity :: "jsval \<Rightarrow> widget \<Rightarrow> widget" where
  "setProximity p g = g\<lparr>calls := calls g @ [SetProximity p]\<rparr>"

definition queries :: "widget \<Rightarrow> string option list" where
  "queries g = concat (map (\<lambda>c. case c of Query q \<Rightarrow> [q] | SetProximity p \<Rightarrow> []) (calls g))"

definition proximities :: "widget \<Rightarrow> jsval list" where
  "proximities g = concat (map (\<lambda>c. case c of Query q \<Rightarrow> [] | SetProximity p \<Rightarrow> [p]) (calls g))"

subsection \<open>The directive\<close>

text \<open>
  \<^verbatim>\<open>class GeocoderControlDirective implements GeocoderEvent\<close>: the eight emitters,
  the inputs, the widget, the last result id and the injected default key. The
  constructor parameter \<^verbatim>\<open>MAPBOX_GEOCODER_API_KEY\<close> is decorated \<^verbatim>\<open>@Optional()\<close>:
  it holds whatever the injector supplies, a string when a provider exists and
  \<^verbatim>\<open>null\<close> when none does, so it is a \<^typ>\<open>jsval\<close>.
\<close>

record directive = GeocoderEvent +
  countries :: "string option"
  placeholder :: "string option"
  zoom :: "int option"
  bbox :: "(int \<times> int \<times> int \<times> int) option"
  types :: "string option"
  flyTo :: "bool option"
  minLength :: "int option"
  limit :: "int option"
  language :: "string option"
  accessToken :: "string option"
  filter_fn :: "nat option"
  localGeocoder :: "nat option"
  mapboxgl :: "nat option"
  marker :: marker_input
  proximity :: "(int \<times> int) option"
  searchInput :: "string option"
  geocoder :: "widget option"
  lastResultId :: "result_id option"
  MAPBOX_GEOCODER_API_KEY :: jsval

text \<open>
  A directive as its constructor and field initialisers leave it: eight new
  emitters, \<^verbatim>\<open>marker = false\<close>, every other field undefined, and the injected key.
\<close>

definition new_EventEmitter :: emitter where
  "new_EventEmitter = \<lparr>observers = 0, emitted = []\<rparr>"

definition new_directive :: "jsval \<Rightarrow> directive" where
  "new_directive key =
    \<lparr>clear = new_EventEmitter, loading = new_EventEmitter,
     results = new_EventEmitter, result = new_EventEmitter, error = new_EventEmitter,
     geocoderResults = new_EventEmitter, geocoderResult = new_EventEmitter,
     geocoderError = new_EventEmitter,
     countries = None, placeholder = None, zoom = None, bbox = None, types = None,
     flyTo = None, minLength = None, limit = None, language = None, accessToken = None,
     filter_fn = None, localGeocoder = None, mapboxgl = None,
     marker = MarkerFlag False,
     proximity = None, searchInput = None,
     geocoder = None, lastResultId = None,
     MAPBOX_GEOCODER_API_KEY = key\<rparr>"

subsection \<open>The world\<close>

text \<open>
  The directive and its collaborators: the control slot and position of the
  control component, the two streams of the map service (how many subscribers wait
  for each, and whether it has fired) and its \<^verbatim>\<open>addControl\<close> calls, the widget
  constructor's calls, the deprecation warnings, the runs of the zone, and the errors
  thrown to the host.
\<close>

datatype err = Error string | TypeError string

record world =
  dir :: directive
  control :: "nat option"
  position :: "string option"
  mapCreatedSubs :: nat
  mapCreatedFired :: bool
  mapLoadedSubs :: nat
  mapLoadedFired :: bool
  addControlCalls :: "(nat option \<times> string option) list"
  constructorCalls :: "options list"
  warnings :: "(string \<times> string \<times> string) list"
  zoneRuns :: nat
  thrown :: "err list"

text \<open>A directive in a world where nothing has happened yet and the slot is empty.\<close>

definition new_world :: "directive \<Rightarrow> world" where
  "new_world d =
    \<lparr>dir = d, control = None, position = None,
     mapCreatedSubs = 0, mapCreatedFired = False, mapLoadedSubs = 0, mapLoadedFired = False,
     addControlCalls = [], constructorCalls = [], warnings = [], zoneRuns = 0, thrown = []\<rparr>"

datatype outcome = Done world | Threw err world

fun and_then :: "outcome \<Rightarrow> (world \<Rightarrow> outcome) \<Rightarrow> outcome" where
  "and_then (Done w) f = f w"
| "and_then (Threw e w) f = Threw e w"

text \<open>An error that no caller catches goes to the host, which is the list \<open>thrown\<close>.\<close>

definition settle :: "outcome \<Rightarrow> world" where
  "settle r = (case r of Done w \<Rightarrow> w | Threw e w \<Rightarrow> w\<lparr>thrown := thrown w @ [e]\<rparr>)"

definition zone_run :: "(world \<Rightarrow> world) \<Rightarrow> world \<Rightarrow> world" where
  "zone_run f w = f (w\<lparr>zoneRuns := Suc (zoneRuns w)\<rparr>)"

definition deprecationWarning :: "string \<Rightarrow> string \<Rightarrow> string \<Rightarrow> world \<Rightarrow> world" where
  "deprecationWarning cls old new w = w\<lparr>warnings := warnings w @ [(cls, old, new)]\<rparr>"

subsection \<open>\<^verbatim>\<open>ngAfterContentInit\<close>: the options\<close>

definition build_options :: "directive \<Rightarrow> options" where
  "build_options d =
    [(''proximity'', opt_val lnglat_val (proximity d)),
     (''countries'', opt_val JStr (countries d)),
     (''placeholder'', opt_val JStr (placeholder d)),
     (''zoom'', opt_val JNum (zoom d)),
     (''bbox'', opt_val bbox_val (bbox d)),
     (''types'', opt_val JStr (types d)),
     (''flyTo'', opt_val JBool (flyTo d)),
     (''minLength'', opt_val JNum (minLength d)),
     (''limit'', opt_val JNum (limit d)),
     (''language'', opt_val JStr (language d)),
     (''filter'', opt_val JRef (filter_fn d)),
     (''localGeocoder'', opt_val JRef (localGeocoder d)),
     (''accessToken'', js_or (opt_val JStr (accessToken d)) (MAPBOX_GEOCODER_API_KEY d)),
     (''mapboxgl'', opt_val JRef (mapboxgl d)),
     (''marker'', marker_val (marker d))]"

text \<open>
  \<^verbatim>\<open>Object.keys(options).forEach(key => { if (options[key] === undefined) delete options[key] })\<close>:
  the keys are listed once, before the loop, and each is looked up in the object as it
  is then.
\<close>

definition strip_undefined :: "options \<Rightarrow> options" where
  "strip_undefined obj =
     fold (\<lambda>k ob. if get_prop ob k = Undefined then delete_prop k ob else ob) (object_keys obj) obj"

subsection \<open>\<^verbatim>\<open>hookEvents\<close> and \<^verbatim>\<open>warnDeprecatedOutputs\<close>\<close>

definition warnDeprecatedOutputs :: "world \<Rightarrow> world" where
  "warnDeprecatedOutputs w =
    (let dw = deprecationWarning ''GeocoderControlDirective'';
         w1 = (if observed (results (dir w)) then dw ''results'' ''geocoderResults'' w else w);
         w2 = (if observed (result (dir w1)) then dw ''result'' ''geocoderResult'' w1 else w1)
     in if observed (error (dir w2)) then dw ''error'' ''geocoderError'' w2 else w2)"

text \<open>\<^verbatim>\<open>this.geocoder.on(kind, ...)\<close>; reading a property of undefined throws.\<close>

definition geocoder_on :: "string \<Rightarrow> world \<Rightarrow> outcome" where
  "geocoder_on k w =
    (case geocoder (dir w) of
       None \<Rightarrow> Threw (TypeError ''this.geocoder is undefined'') w
     | Some g \<Rightarrow> Done (w\<lparr>dir := (dir w)\<lparr>geocoder := Some (on k g)\<rparr>\<rparr>))"

definition hookEvents :: "world \<Rightarrow> outcome" where
  "hookEvents w =
    and_then (Done (warnDeprecatedOutputs w)) (\<lambda>w.
    and_then (if observed (results (dir w)) \<or> observed (geocoderResults (dir w))
              then geocoder_on ''results'' w else Done w) (\<lambda>w.
    and_then (if observed (geocoderResult (dir w)) \<or> observed (result (dir w))
              then geocoder_on ''result'' w else Done w) (\<lambda>w.
    and_then (if observed (error (dir w)) \<or> observed (geocoderError (dir w))
              then geocoder_on ''error'' w else Done w) (\<lambda>w.
    and_then (if observed (loading (dir w))
              then geocoder_on ''loading'' w else Done w) (\<lambda>w.
    if observed (clear (dir w)) then geocoder_on ''clear'' w else Done w)))))"

text \<open>
  The five arrow functions given to \<^verbatim>\<open>on\<close>: what each does with the event it
  receives. All of them emit on the directive's own emitters, as \<^verbatim>\<open>hookEvents(this)\<close>
  passes the directive as \<^verbatim>\<open>events\<close>.
\<close>

definition emit_on_dir :: "(directive \<Rightarrow> directive) \<Rightarrow> world \<Rightarrow> world" where
  "emit_on_dir f w = w\<lparr>dir := f (dir w)\<rparr>"

fun forwarder :: "evt \<Rightarrow> world \<Rightarrow> world" where
  "forwarder (ResultsEvt p) w =
     zone_run (\<lambda>w. emit_on_dir (\<lambda>d. d\<lparr>results := emit (ResultsEvt p) (results d)\<rparr>)
                (emit_on_dir (\<lambda>d. d\<lparr>geocoderResults := emit (ResultsEvt p) (geocoderResults d)\<rparr>) w)) w"
| "forwarder (ResultEvt i p) w =
     (if lastResultId (dir w) \<noteq> i
      then zone_run (\<lambda>w. emit_on_dir (\<lambda>d. d\<lparr>result := emit (ResultEvt i p) (result d)\<rparr>)
                (emit_on_dir (\<lambda>d. d\<lparr>geocoderResult := emit (ResultEvt i p) (geocoderResult d)\<rparr>) w))
             (w\<lparr>dir := (dir w)\<lparr>lastResultId := i\<rparr>\<rparr>)
      else w)"
| "forwarder (ErrorEvt p) w =
     zone_run (\<lambda>w. emit_on_dir (\<lambda>d. d\<lparr>error := emit (ErrorEvt p) (error d)\<rparr>)
                (emit_on_dir (\<lambda>d. d\<lparr>geocoderError := emit (ErrorEvt p) (geocoderError d)\<rparr>) w)) w"
| "forwarder (LoadingEvt q) w =
     zone_run (emit_on_dir (\<lambda>d. d\<lparr>loading := emit (LoadingEvt q) (loading d)\<rparr>)) w"
| "forwarder ClearEvt w =
     zone_run (emit_on_dir (\<lambda>d. d\<lparr>clear := emit ClearEvt (clear d)\<rparr>)) w"

text \<open>
  The widget's event emitter fires an event: every handler registered for its kind
  runs, in the order of registration.
\<close>

definition widget_emits :: "evt \<Rightarrow> world \<Rightarrow> world" where
  "widget_emits e w =
    (case geocoder (dir w) of
       None \<Rightarrow> w
     | Some g \<Rightarrow> fold (\<lambda>k w. if k = kind_of e then forwarder e w else w) (handlers g) w)"

subsection \<open>\<^verbatim>\<open>addControl\<close>\<close>

definition addControl :: "world \<Rightarrow> world" where
  "addControl w =
    (let w1 = w\<lparr>control := map_option wid (geocoder (dir w))\<rparr>
     in w1\<lparr>addControlCalls := addControlCalls w1 @ [(control w1, position w1)]\<rparr>)"

subsection \<open>\<^verbatim>\<open>ngAfterContentInit\<close> and its two subscribers\<close>

text \<open>The function subscribed to \<^verbatim>\<open>mapCreated$\<close>.\<close>

definition mapCreated_handler :: "world \<Rightarrow> outcome" where
  "mapCreated_handler w =
    (if control w \<noteq> None
     then Threw (Error ''Another control is already set for this control'') w
     else
       let opts = strip_undefined (build_options (dir w));
           g = new_MapboxGeocoder (length (constructorCalls w)) opts;
           w1 = w\<lparr>dir := (dir w)\<lparr>geocoder := Some g\<rparr>,
                  constructorCalls := constructorCalls w @ [opts]\<rparr>
       in and_then (hookEvents w1) (\<lambda>w2. Done (addControl w2)))"

text \<open>The function subscribed to \<^verbatim>\<open>mapLoaded$\<close>.\<close>

definition mapLoaded_handler :: "world \<Rightarrow> outcome" where
  "mapLoaded_handler w =
    (case geocoder (dir w) of
       None \<Rightarrow> Threw (TypeError ''this.geocoder is undefined'') w
     | Some g \<Rightarrow> Done (w\<lparr>dir := (dir w)\<lparr>geocoder := Some (query (searchInput (dir w)) g)\<rparr>\<rparr>))"

text \<open>
  Modelled from the spec: the streams \<^verbatim>\<open>mapCreated$\<close> and \<^verbatim>\<open>mapLoaded$\<close> of
  \<^verbatim>\<open>MapService\<close>, which is not among the sources. The spec has "a notification
  stream fired once the map exists, a second stream fired once the map has finished
  loading", an attachment "triggered exactly once, upon the first notification that
  the map instance exists", and an initial query issued "only once". So each stream
  notifies each of its subscribers once. \<open>notify n h\<close> runs the subscriber \<open>h\<close>
  of \<open>n\<close> subscriptions, one after the other; an error one of them throws goes to
  the host and the others still run.
\<close>

primrec notify :: "nat \<Rightarrow> (world \<Rightarrow> outcome) \<Rightarrow> world \<Rightarrow> world" where
  "notify 0 h w = w"
| "notify (Suc n) h w = notify n h (settle (h w))"

text \<open>
  Modelled from the spec: \<^verbatim>\<open>mapCreated$.subscribe\<close> of the absent \<^verbatim>\<open>MapService\<close>.
  A subscriber waits for the stream to fire; one that subscribes when the map exists
  already is notified at once.
\<close>

definition subscribe_mapCreated :: "(world \<Rightarrow> outcome) \<Rightarrow> world \<Rightarrow> world" where
  "subscribe_mapCreated h w =
    (if mapCreatedFired w then settle (h w)
     else w\<lparr>mapCreatedSubs := Suc (mapCreatedSubs w)\<rparr>)"

text \<open>
  Modelled from the spec: \<^verbatim>\<open>mapLoaded$.subscribe\<close> of the absent \<^verbatim>\<open>MapService\<close>.
  A subscriber waits for the stream to fire; one that subscribes when the map has
  loaded already is notified at once.
\<close>

definition subscribe_mapLoaded :: "(world \<Rightarrow> outcome) \<Rightarrow> world \<Rightarrow> world" where
  "subscribe_mapLoaded h w =
    (if mapLoadedFired w then settle (h w)
     else w\<lparr>mapLoadedSubs := Suc (mapLoadedSubs w)\<rparr>)"

definition ngAfterContentInit :: "world \<Rightarrow> world" where
  "ngAfterContentInit w =
    (let w1 = subscribe_mapCreated mapCreated_handler w
     in if truthy (opt_val JStr (searchInput (dir w1)))
        then subscribe_mapLoaded mapLoaded_handler w1
        else w1)"

text \<open>
  Modelled from the spec: the absent \<^verbatim>\<open>MapService\<close> firing \<^verbatim>\<open>mapCreated$\<close>. The
  subscribers that wait are notified and released, so that a later firing finds
  nobody waiting and notifies nobody.
\<close>

definition mapCreated_fires :: "world \<Rightarrow> world" where
  "mapCreated_fires w =
     notify (mapCreatedSubs w) mapCreated_handler
       (w\<lparr>mapCreatedSubs := 0, mapCreatedFired := True\<rparr>)"

text \<open>
  Modelled from the spec: the absent \<^verbatim>\<open>MapService\<close> firing \<^verbatim>\<open>mapLoaded$\<close>, in the
  same way.
\<close>

definition mapLoaded_fires :: "world \<Rightarrow> world" where
  "mapLoaded_fires w =
     notify (mapLoadedSubs w) mapLoaded_handler
       (w\<lparr>mapLoadedSubs := 0, mapLoadedFired := True\<rparr>)"

subsection \<open>\<^verbatim>\<open>ngOnChanges\<close>\<close>

record SimpleChange =
  previousValue :: jsval
  currentValue :: jsval
  firstChange :: bool

text \<open>\<^verbatim>\<open>SimpleChanges\<close> is an object keyed by input name; \<^verbatim>\<open>changes[k]\<close> is \<open>map_of changes k\<close>.\<close>

type_synonym SimpleChanges = "(string \<times> SimpleChange) list"

definition ngOnChanges :: "SimpleChanges \<Rightarrow> world \<Rightarrow> world" where
  "ngOnChanges changes w =
    (case geocoder (dir w) of
       None \<Rightarrow> w
     | Some g \<Rightarrow>
        let g1 = (case map_of changes ''proximity'' of
                    None \<Rightarrow> g
                  | Some c \<Rightarrow> if \<not> firstChange c then setProximity (currentValue c) g else g);
            g2 = (case map_of changes ''searchInput'' of
                    None \<Rightarrow> g1
                  | Some c \<Rightarrow> query (searchInput (dir w)) g1)
        in w\<lparr>dir := (dir w)\<lparr>geocoder := Some g2\<rparr>\<rparr>)"

subsection \<open>Runs\<close>

text \<open>
  What can happen to the directive: the framework calls a lifecycle hook or assigns
  one of the two dynamic \<^verbatim>\<open>@Input()\<close> properties, a stream of the map service
  fires, or the widget fires an event.
\<close>

datatype input =
    NgAfterContentInit
  | MapCreated
  | MapLoaded
  | NgOnChanges SimpleChanges
  | WidgetEmits evt
  | AssignProximity "(int \<times> int) option"
  | AssignSearchInput "string option"

fun step :: "world \<Rightarrow> input \<Rightarrow> world" where
  "step w NgAfterContentInit = ngAfterContentInit w"
| "step w MapCreated = mapCreated_fires w"
| "step w MapLoaded = mapLoaded_fires w"
| "step w (NgOnChanges changes) = ngOnChanges changes w"
| "step w (WidgetEmits e) = widget_emits e w"
| "step w (AssignProximity v) = w\<lparr>dir := (dir w)\<lparr>proximity := v\<rparr>\<rparr>"
| "step w (AssignSearchInput v) = w\<lparr>dir := (dir w)\<lparr>searchInput := v\<rparr>\<rparr>"

fun run :: "world \<Rightarrow> input list \<Rightarrow> world" where
  "run w [] = w"
| "run w (i # is) = run (step w i) is"

subsection \<open>Definitions used to state the properties\<close>

text \<open>
  The kinds \<^verbatim>\<open>hookEvents\<close> registers, as its five conditionals append them, and the
  widget a successful attachment leaves in the directive.
\<close>

definition kinds_hooked :: "directive \<Rightarrow> string list" where
  "kinds_hooked d =
     (if observed (results d) \<or> observed (geocoderResults d) then [''results''] else []) @
     (if observed (geocoderResult d) \<or> observed (result d) then [''result''] else []) @
     (if observed (error d) \<or> observed (geocoderError d) then [''error''] else []) @
     (if observed (loading d) then [''loading''] else []) @
     (if observed (clear d) then [''clear''] else [])"

definition attached_widget :: "world \<Rightarrow> widget" where
  "attached_widget w =
     \<lparr>wid = length (constructorCalls w),
      woptions = filter (\<lambda>kv. snd kv \<noteq> Undefined) (build_options (dir w)),
      handlers = kinds_hooked (dir w), calls = []\<rparr>"

text \<open>
  The five event kinds of the widget, and whether a kind has a listener on one of the
  outward channels it is forwarded to.
\<close>

definition all_kinds :: "string list" where
  "all_kinds = [''results'', ''result'', ''error'', ''loading'', ''clear'']"

definition kind_listened :: "directive \<Rightarrow> string \<Rightarrow> bool" where
  "kind_listened d k =
    (if k = ''results'' then observed (results d) \<or> observed (geocoderResults d)
     else if k = ''result'' then observed (geocoderResult d) \<or> observed (result d)
     else if k = ''error'' then observed (error d) \<or> observed (geocoderError d)
     else if k = ''loading'' then observed (loading d)
     else if k = ''clear'' then observed (clear d)
     else False)"

text \<open>The number of outward channels, of the eight, that have a listener.\<close>

definition channels_with_listeners :: "directive \<Rightarrow> nat" where
  "channels_with_listeners d =
     length (filter observed
       [clear d, loading d, results d, result d, error d,
        geocoderResults d, geocoderResult d, geocoderError d])"

text \<open>
  Two readings of a sequence of result events. \<open>drop_repeats l\<close> keeps an event
  when its id differs from the id of the event just before it (from \<open>l\<close> for the
  first). \<open>first_occurrences seen\<close> keeps an event when its id has not occurred
  earlier in the sequence (nor in \<open>seen\<close>).
\<close>

fun drop_repeats :: "result_id option \<Rightarrow> evt list \<Rightarrow> evt list" where
  "drop_repeats l [] = []"
| "drop_repeats l (e # es) = (if evt_id e = l then [] else [e]) @ drop_repeats (evt_id e) es"

fun first_occurrences :: "result_id option list \<Rightarrow> evt list \<Rightarrow> evt list" where
  "first_occurrences seen [] = []"
| "first_occurrences seen (e # es) =
     (if evt_id e \<in> set seen then [] else [e]) @ first_occurrences (evt_id e # seen) es"

definition result_events :: "(result_id option \<times> nat) list \<Rightarrow> evt list" where
  "result_events rs = map (\<lambda>(i, p). ResultEvt i p) rs"

section \<open>Properties\<close>

subsection \<open>Stripping the undefined options\<close>

lemma strip_step:
  assumes "distinct (map fst obj)"
  shows "(if get_prop obj k = Undefined then delete_prop k obj else obj)
         = filter (\<lambda>kv. \<not> (fst kv = k \<and> snd kv = Undefined)) obj"
proof (cases "map_of obj k")
  case None
  then have "\<forall>kv \<in> set obj. fst kv \<noteq> k"
    by (metis map_of_eq_None_iff image_eqI)
  then have "filter (\<lambda>kv. \<not> (fst kv = k \<and> snd kv = Undefined)) obj = obj"
    and "filter (\<lambda>kv. fst kv \<noteq> k) obj = obj"
    by (simp_all add: filter_id_conv)
  then show ?thesis by (simp add: delete_prop_def)
next
  case (Some v)
  have all: "\<forall>kv \<in> set obj. fst kv = k \<longrightarrow> snd kv = v"
  proof
    fix kv assume "kv \<in> set obj"
    show "fst kv = k \<longrightarrow> snd kv = v"
    proof
      assume "fst kv = k"
      with \<open>kv \<in> set obj\<close> have "(k, snd kv) \<in> set obj" by (metis prod.collapse)
      with assms have "map_of obj k = Some (snd kv)" by simp
      with Some show "snd kv = v" by simp
    qed
  qed
  show ?thesis
  proof (cases "v = Undefined")
    case True
    with all have "filter (\<lambda>kv. \<not> (fst kv = k \<and> snd kv = Undefined)) obj
                 = filter (\<lambda>kv. fst kv \<noteq> k) obj"
      by (intro filter_cong) auto
    with True Some show ?thesis by (simp add: get_prop_def delete_prop_def)
  next
    case False
    with all have "filter (\<lambda>kv. \<not> (fst kv = k \<and> snd kv = Undefined)) obj = obj"
      by (auto simp: filter_id_conv)
    with False Some show ?thesis by (simp add: get_prop_def)
  qed
qed

lemma strip_fold:
  "distinct (map fst obj) \<Longrightarrow>
   fold (\<lambda>k ob. if get_prop ob k = Undefined then delete_prop k ob else ob) ks obj
   = filter (\<lambda>kv. \<not> (fst kv \<in> set ks \<and> snd kv = Undefined)) obj"
proof (induction ks arbitrary: obj)
  case Nil
  then show ?case by simp
next
  case (Cons k ks)
  let ?f = "\<lambda>k ob. if get_prop ob k = Undefined then delete_prop k ob else ob"
  let ?o = "filter (\<lambda>kv. \<not> (fst kv = k \<and> snd kv = Undefined)) obj"
  have d: "distinct (map fst ?o)" using Cons.prems by (simp add: distinct_map_filter)
  have "fold ?f (k # ks) obj = fold ?f ks (?f k obj)" by simp
  also have "?f k obj = ?o" by (rule strip_step [OF Cons.prems])
  also have "fold ?f ks ?o = filter (\<lambda>kv. \<not> (fst kv \<in> set ks \<and> snd kv = Undefined)) ?o"
    by (rule Cons.IH [OF d])
  also have "\<dots> = filter (\<lambda>kv. \<not> (fst kv \<in> set (k # ks) \<and> snd kv = Undefined)) obj"
    unfolding filter_filter by (rule filter_cong) auto
  finally show ?case .
qed

lemma strip_undefined_filter:
  "distinct (map fst obj) \<Longrightarrow>
   strip_undefined obj = filter (\<lambda>kv. snd kv \<noteq> Undefined) obj"
  unfolding strip_undefined_def object_keys_def
  by (simp add: strip_fold) (rule filter_cong, auto)

lemma distinct_build_options: "distinct (map fst (build_options d))"
  by (simp add: build_options_def)

lemma map_of_strip:
  "distinct (map fst obj) \<Longrightarrow>
   map_of (filter (\<lambda>kv. snd kv \<noteq> Undefined) obj) k
     = (case map_of obj k of None \<Rightarrow> None | Some v \<Rightarrow> if v = Undefined then None else Some v)"
proof (induction obj)
  case Nil
  then show ?case by simp
next
  case (Cons a obj)
  then have "fst a \<notin> fst ` set obj" by simp
  then have "map_of obj (fst a) = None" by (simp add: map_of_eq_None_iff)
  with Cons show ?case by (cases a) (auto split: option.splits)
qed

lemma map_of_passed_options:
  "map_of (filter (\<lambda>kv. snd kv \<noteq> Undefined) (build_options d)) k
     = (case map_of (build_options d) k of
          None \<Rightarrow> None | Some v \<Rightarrow> if v = Undefined then None else Some v)"
  by (rule map_of_strip [OF distinct_build_options])

lemma has_key_map_of: "has_key obj k \<longleftrightarrow> map_of obj k \<noteq> None"
  by (simp add: has_key_def object_keys_def map_of_eq_None_iff)

lemma accessToken_entry:
  "map_of (build_options d) ''accessToken''
     = Some (js_or (opt_val JStr (accessToken d)) (MAPBOX_GEOCODER_API_KEY d))"
  by (simp add: build_options_def)

lemma marker_entry: "map_of (build_options d) ''marker'' = Some (marker_val (marker d))"
  by (simp add: build_options_def)

lemma marker_val_defined: "marker_val m \<noteq> Undefined"
  by (cases m) simp_all

lemma marker_default: "marker (new_directive key) = MarkerFlag False"
  by (simp add: new_directive_def)

subsection \<open>Attachment\<close>

lemma dir_warnDeprecatedOutputs [simp]: "dir (warnDeprecatedOutputs w) = dir w"
  by (simp add: warnDeprecatedOutputs_def deprecationWarning_def Let_def)

lemma warn_fields [simp]:
  "control (warnDeprecatedOutputs w) = control w"
  "position (warnDeprecatedOutputs w) = position w"
  "mapCreatedSubs (warnDeprecatedOutputs w) = mapCreatedSubs w"
  "mapLoadedSubs (warnDeprecatedOutputs w) = mapLoadedSubs w"
  "mapCreatedFired (warnDeprecatedOutputs w) = mapCreatedFired w"
  "mapLoadedFired (warnDeprecatedOutputs w) = mapLoadedFired w"
  "addControlCalls (warnDeprecatedOutputs w) = addControlCalls w"
  "constructorCalls (warnDeprecatedOutputs w) = constructorCalls w"
  "zoneRuns (warnDeprecatedOutputs w) = zoneRuns w"
  "thrown (warnDeprecatedOutputs w) = thrown w"
  by (simp_all add: warnDeprecatedOutputs_def deprecationWarning_def Let_def)

lemma hookEvents_Done:
  assumes "geocoder (dir w) = Some g"
  shows "hookEvents w =
     Done ((warnDeprecatedOutputs w)
       \<lparr>dir := (dir w)\<lparr>geocoder := Some (g\<lparr>handlers := handlers g @ kinds_hooked (dir w)\<rparr>)\<rparr>\<rparr>)"
proof -
  obtain w0 where w0: "w0 = warnDeprecatedOutputs w" by simp
  have d0: "dir w0 = dir w" by (simp add: w0)
  show ?thesis
    unfolding hookEvents_def w0 [symmetric] kinds_hooked_def
    using assms d0
    by (simp add: geocoder_on_def on_def)
qed

lemma mapCreated_handler_Done:
  assumes "control w = None"
  shows "\<exists>w'. mapCreated_handler w = Done w'
     \<and> dir w' = (dir w)\<lparr>geocoder := Some (attached_widget w)\<rparr>
     \<and> constructorCalls w' = constructorCalls w @ [woptions (attached_widget w)]
     \<and> control w' = Some (length (constructorCalls w))
     \<and> addControlCalls w' = addControlCalls w @ [(Some (length (constructorCalls w)), position w)]
     \<and> position w' = position w
     \<and> mapCreatedSubs w' = mapCreatedSubs w \<and> mapLoadedSubs w' = mapLoadedSubs w
     \<and> mapCreatedFired w' = mapCreatedFired w \<and> mapLoadedFired w' = mapLoadedFired w
     \<and> zoneRuns w' = zoneRuns w \<and> thrown w' = thrown w"
proof -
  let ?opts = "strip_undefined (build_options (dir w))"
  let ?g = "new_MapboxGeocoder (length (constructorCalls w)) ?opts"
  let ?w1 = "w\<lparr>dir := (dir w)\<lparr>geocoder := Some ?g\<rparr>, constructorCalls := constructorCalls w @ [?opts]\<rparr>"
  have g: "geocoder (dir ?w1) = Some ?g" by simp
  have k: "kinds_hooked (dir ?w1) = kinds_hooked (dir w)" by (simp add: kinds_hooked_def)
  have o: "?opts = filter (\<lambda>kv. snd kv \<noteq> Undefined) (build_options (dir w))"
    by (rule strip_undefined_filter [OF distinct_build_options])
  have m: "mapCreated_handler w = and_then (hookEvents ?w1) (\<lambda>w2. Done (addControl w2))"
    using assms by (simp add: mapCreated_handler_def Let_def)
  show ?thesis
    unfolding m hookEvents_Done [OF g] k
    by (simp add: addControl_def Let_def attached_widget_def new_MapboxGeocoder_def o [symmetric])
qed

lemma attach_options:
  assumes "control w = None"
  shows "\<exists>w'. mapCreated_handler w = Done w'
     \<and> constructorCalls w' = constructorCalls w
          @ [filter (\<lambda>kv. snd kv \<noteq> Undefined) (build_options (dir w))]"
  using mapCreated_handler_Done [OF assms] by (auto simp: attached_widget_def)

lemma kinds_hooked_filter: "kinds_hooked d = filter (kind_listened d) all_kinds"
  by (simp add: kinds_hooked_def kind_listened_def all_kinds_def)

lemma new_world_control: "control (new_world d) = None"
  by (simp add: new_world_def)

lemma new_world_calls: "constructorCalls (new_world d) = []"
  by (simp add: new_world_def)

subsection \<open>The guard of the attachment\<close>

lemma notify_occupied:
  assumes "control w = Some c"
  shows "notify n mapCreated_handler w
       = w\<lparr>thrown := thrown w @ replicate n
            (Error ''Another control is already set for this control'')\<rparr>"
  using assms
proof (induction n arbitrary: w)
  case 0
  then show ?case by simp
next
  case (Suc n)
  let ?E = "Error ''Another control is already set for this control''"
  have h: "settle (mapCreated_handler w) = w\<lparr>thrown := thrown w @ [?E]\<rparr>"
    using Suc.prems by (simp add: mapCreated_handler_def settle_def)
  have c: "control (w\<lparr>thrown := thrown w @ [?E]\<rparr>) = Some c"
    using Suc.prems by simp
  show ?case
    by (simp add: h Suc.IH [OF c] replicate_app_Cons_same)
qed

text \<open>
  Claim C2. When the control slot already holds a control, the function subscribed
  to \<^verbatim>\<open>mapCreated$\<close> throws \<^verbatim>\<open>Error('Another control is already set for this control')\<close>
  and the state at the throw is the state it was called in: no widget has been
  constructed (\<open>constructorCalls\<close> and \<open>geocoder\<close> are unchanged), no forwarder is
  registered, and the slot is unchanged. When the stream fires, each waiting
  subscription of the handler adds this error to what the host receives, and
  nothing else changes but the stream's own state.
\<close>

theorem attach_occupied_slot_throws:
  assumes "control w = Some c"
  shows "mapCreated_handler w
           = Threw (Error ''Another control is already set for this control'') w
       \<and> step w MapCreated
           = w\<lparr>mapCreatedSubs := 0, mapCreatedFired := True,
               thrown := thrown w @ replicate (mapCreatedSubs w)
                  (Error ''Another control is already set for this control'')\<rparr>"
proof -
  have h: "mapCreated_handler w
           = Threw (Error ''Another control is already set for this control'') w"
    using assms by (simp add: mapCreated_handler_def)
  have c: "control (w\<lparr>mapCreatedSubs := 0, mapCreatedFired := True\<rparr>) = Some c"
    using assms by simp
  have "step w MapCreated
          = w\<lparr>mapCreatedSubs := 0, mapCreatedFired := True,
              thrown := thrown w @ replicate (mapCreatedSubs w)
                 (Error ''Another control is already set for this control'')\<rparr>"
    by (simp add: mapCreated_fires_def notify_occupied [OF c])
  with h show ?thesis by blast
qed

theorem attach_occupied_slot_throws_witness:
  "control ((new_world (new_directive Null))\<lparr>control := Some 7, mapCreatedSubs := Suc 0\<rparr>) = Some 7
   \<and> step ((new_world (new_directive Null))\<lparr>control := Some 7, mapCreatedSubs := Suc 0\<rparr>) MapCreated
     = (new_world (new_directive Null))
         \<lparr>control := Some 7, mapCreatedSubs := 0, mapCreatedFired := True,
          thrown := [Error ''Another control is already set for this control'']\<rparr>"
proof -
  let ?W = "(new_world (new_directive Null))\<lparr>control := Some 7, mapCreatedSubs := Suc 0\<rparr>"
  have c: "control ?W = Some 7"
    by (simp add: new_world_def)
  have t: "thrown ?W = []" "mapCreatedSubs ?W = Suc 0" by (simp_all add: new_world_def)
  from attach_occupied_slot_throws [OF c]
  have "step ?W MapCreated
          = ?W\<lparr>mapCreatedSubs := 0, mapCreatedFired := True,
              thrown := thrown ?W @ replicate (mapCreatedSubs ?W)
                 (Error ''Another control is already set for this control'')\<rparr>"
    by (rule conjunct2)
  then have "step ?W MapCreated
          = ?W\<lparr>mapCreatedSubs := 0, mapCreatedFired := True,
              thrown := [Error ''Another control is already set for this control'']\<rparr>"
    unfolding t by simp
  with c show ?thesis by simp
qed

subsection \<open>The options the widget is constructed with\<close>

text \<open>
  Claim C3. When the slot is empty the attachment succeeds and calls the widget
  constructor once, with the options built from the directive's fields from which
  every property whose value is \<^verbatim>\<open>undefined\<close> has been deleted: no property of the
  object passed has the value \<^verbatim>\<open>undefined\<close>, and the properties kept are exactly those
  of the literal with another value, in the literal's order.
\<close>

theorem options_have_no_undefined:
  assumes "control w = None"
  shows "\<exists>w' opts. mapCreated_handler w = Done w'
      \<and> constructorCalls w' = constructorCalls w @ [opts]
      \<and> map_option woptions (geocoder (dir w')) = Some opts
      \<and> Undefined \<notin> snd ` set opts
      \<and> opts = filter (\<lambda>kv. snd kv \<noteq> Undefined) (build_options (dir w))"
proof -
  from mapCreated_handler_Done [OF assms] obtain w' where
    "mapCreated_handler w = Done w'"
    "dir w' = (dir w)\<lparr>geocoder := Some (attached_widget w)\<rparr>"
    "constructorCalls w' = constructorCalls w @ [woptions (attached_widget w)]"
    by blast
  then show ?thesis
    by (auto simp: attached_widget_def)
qed

theorem options_have_no_undefined_witness:
  "control (new_world ((new_directive (JStr ''B''))\<lparr>zoom := Some 9\<rparr>)) = None
   \<and> constructorCalls (settle (mapCreated_handler
        (new_world ((new_directive (JStr ''B''))\<lparr>zoom := Some 9\<rparr>))))
     = [[(''zoom'', JNum 9), (''accessToken'', JStr ''B''), (''marker'', JBool False)]]"
proof -
  let ?W = "new_world ((new_directive (JStr ''B''))\<lparr>zoom := Some 9\<rparr>)"
  from options_have_no_undefined
         [OF new_world_control, of "(new_directive (JStr ''B''))\<lparr>zoom := Some 9\<rparr>"]
  obtain w' where w': "mapCreated_handler ?W = Done w'"
    "constructorCalls w' = constructorCalls ?W
        @ [filter (\<lambda>kv. snd kv \<noteq> Undefined) (build_options (dir ?W))]"
    by auto
  have "filter (\<lambda>kv. snd kv \<noteq> Undefined) (build_options (dir ?W))
      = [(''zoom'', JNum 9), (''accessToken'', JStr ''B''), (''marker'', JBool False)]"
    by (simp add: new_world_def new_directive_def build_options_def opt_val_def js_or_def)
  with w' show ?thesis
    by (simp add: new_world_control new_world_calls settle_def)
qed

lemma settle_Done: "settle (Done w) = w"
  by (simp add: settle_def)

text \<open>
  Claim C7 (amended). The constructor receives \<^verbatim>\<open>this.accessToken || this.MAPBOX_GEOCODER_API_KEY\<close>
  under the key \<^verbatim>\<open>accessToken\<close>, unless that value is \<^verbatim>\<open>undefined\<close>. With a non-empty
  per-instance credential \<open>a\<close> it receives \<open>a\<close>, whatever the default is; with no
  per-instance credential and the default string \<open>b\<close> it receives \<open>b\<close>; with neither,
  the key is absent when the injected default is \<^verbatim>\<open>undefined\<close>, and present with the
  value \<^verbatim>\<open>null\<close> when the injected default is \<^verbatim>\<open>null\<close>, which is what an
  \<^verbatim>\<open>@Optional()\<close> parameter holds when no provider exists: only \<^verbatim>\<open>undefined\<close> is
  stripped.
\<close>

theorem credential_resolution:
  assumes "control w = None"
  shows "\<exists>w' opts. mapCreated_handler w = Done w'
      \<and> constructorCalls w' = constructorCalls w @ [opts]
      \<and> (\<forall>a. accessToken (dir w) = Some a \<and> a \<noteq> [] \<longrightarrow>
             map_of opts ''accessToken'' = Some (JStr a))
      \<and> (\<forall>b. accessToken (dir w) = None \<and> MAPBOX_GEOCODER_API_KEY (dir w) = JStr b \<longrightarrow>
             map_of opts ''accessToken'' = Some (JStr b))
      \<and> (accessToken (dir w) = None \<and> MAPBOX_GEOCODER_API_KEY (dir w) = Undefined \<longrightarrow>
             \<not> has_key opts ''accessToken'')
      \<and> (accessToken (dir w) = None \<and> MAPBOX_GEOCODER_API_KEY (dir w) = Null \<longrightarrow>
             map_of opts ''accessToken'' = Some Null)"
proof -
  let ?opts = "filter (\<lambda>kv. snd kv \<noteq> Undefined) (build_options (dir w))"
  from attach_options [OF assms] obtain w' where
    w': "mapCreated_handler w = Done w'" "constructorCalls w' = constructorCalls w @ [?opts]"
    by blast
  have 1: "\<forall>a. accessToken (dir w) = Some a \<and> a \<noteq> [] \<longrightarrow>
             map_of ?opts ''accessToken'' = Some (JStr a)"
    by (simp add: map_of_passed_options accessToken_entry js_or_def opt_val_def)
  have 2: "\<forall>b. accessToken (dir w) = None \<and> MAPBOX_GEOCODER_API_KEY (dir w) = JStr b \<longrightarrow>
             map_of ?opts ''accessToken'' = Some (JStr b)"
    by (simp add: map_of_passed_options accessToken_entry js_or_def opt_val_def)
  have 3: "accessToken (dir w) = None \<and> MAPBOX_GEOCODER_API_KEY (dir w) = Undefined \<longrightarrow>
             \<not> has_key ?opts ''accessToken''"
    by (simp add: has_key_map_of map_of_passed_options accessToken_entry js_or_def opt_val_def)
  have 4: "accessToken (dir w) = None \<and> MAPBOX_GEOCODER_API_KEY (dir w) = Null \<longrightarrow>
             map_of ?opts ''accessToken'' = Some Null"
    by (simp add: map_of_passed_options accessToken_entry js_or_def opt_val_def)
  show ?thesis
    by (intro exI [of _ w'] exI [of _ ?opts] conjI) (fact w' 1 2 3 4)+
qed

text \<open>
  The claim as stated fails for a new directive with no per-instance credential and
  no provider of the default: the options passed hold \<^verbatim>\<open>accessToken: null\<close>.
\<close>

theorem credential_null_default_counterexample:
  "constructorCalls (settle (mapCreated_handler (new_world (new_directive Null))))
     = [[(''accessToken'', Null), (''marker'', JBool False)]]"
proof -
  let ?W = "new_world (new_directive Null)"
  from attach_options [OF new_world_control, of "new_directive Null"]
  obtain w' where w': "mapCreated_handler ?W = Done w'"
    "constructorCalls w' = constructorCalls ?W
        @ [filter (\<lambda>kv. snd kv \<noteq> Undefined) (build_options (dir ?W))]"
    by auto
  have "filter (\<lambda>kv. snd kv \<noteq> Undefined) (build_options (dir ?W))
      = [(''accessToken'', Null), (''marker'', JBool False)]"
    by (simp add: new_world_def new_directive_def build_options_def opt_val_def js_or_def)
  with w' show ?thesis
    by (simp add: new_world_calls settle_Done)
qed

theorem credential_resolution_witness:
  "control (new_world ((new_directive (JStr ''B''))\<lparr>accessToken := Some ''A''\<rparr>)) = None
   \<and> control (new_world (new_directive (JStr ''B''))) = None
   \<and> control (new_world (new_directive Undefined)) = None
   \<and> map (\<lambda>opts. map_of opts ''accessToken'')
       (constructorCalls (settle (mapCreated_handler
          (new_world ((new_directive (JStr ''B''))\<lparr>accessToken := Some ''A''\<rparr>)))))
     = [Some (JStr ''A'')]
   \<and> map (\<lambda>opts. map_of opts ''accessToken'')
       (constructorCalls (settle (mapCreated_handler (new_world (new_directive (JStr ''B''))))))
     = [Some (JStr ''B'')]
   \<and> map (\<lambda>opts. has_key opts ''accessToken'')
       (constructorCalls (settle (mapCreated_handler (new_world (new_directive Undefined)))))
     = [False]"
proof -
  let ?dA = "(new_directive (JStr ''B''))\<lparr>accessToken := Some ''A''\<rparr>"
  let ?dB = "new_directive (JStr ''B'')"
  let ?dU = "new_directive Undefined"
  have a: "accessToken (dir (new_world ?dA)) = Some ''A'' \<and> ''A'' \<noteq> []"
    by (simp add: new_world_def new_directive_def)
  have b: "accessToken (dir (new_world ?dB)) = None
         \<and> MAPBOX_GEOCODER_API_KEY (dir (new_world ?dB)) = JStr ''B''"
    by (simp add: new_world_def new_directive_def)
  have u: "accessToken (dir (new_world ?dU)) = None
         \<and> MAPBOX_GEOCODER_API_KEY (dir (new_world ?dU)) = Undefined"
    by (simp add: new_world_def new_directive_def)
  from credential_resolution [OF new_world_control, of ?dA] a
  have A: "map (\<lambda>opts. map_of opts ''accessToken'')
       (constructorCalls (settle (mapCreated_handler (new_world ?dA)))) = [Some (JStr ''A'')]"
    by (auto simp: settle_Done new_world_calls)
  from credential_resolution [OF new_world_control, of ?dB] b
  have B: "map (\<lambda>opts. map_of opts ''accessToken'')
       (constructorCalls (settle (mapCreated_handler (new_world ?dB)))) = [Some (JStr ''B'')]"
    by (auto simp: settle_Done new_world_calls)
  from credential_resolution [OF new_world_control, of ?dU] u
  have U: "map (\<lambda>opts. has_key opts ''accessToken'')
       (constructorCalls (settle (mapCreated_handler (new_world ?dU)))) = [False]"
    by (auto simp: settle_Done new_world_calls)
  from A B U show ?thesis by (simp only: new_world_control simp_thms)
qed

text \<open>
  Claim C9. Every attachment passes the key \<^verbatim>\<open>marker\<close> to the constructor: the field
  is a boolean or a marker object, never \<^verbatim>\<open>undefined\<close>, so the stripping keeps it;
  and a directive whose \<^verbatim>\<open>marker\<close> is still the initial value passes \<^verbatim>\<open>marker: false\<close>.
\<close>

theorem marker_always_passed:
  assumes "control w = None"
  shows "\<exists>w' opts. mapCreated_handler w = Done w'
      \<and> constructorCalls w' = constructorCalls w @ [opts]
      \<and> has_key opts ''marker''
      \<and> map_of opts ''marker'' = Some (marker_val (marker (dir w)))
      \<and> marker_val (marker (dir w)) \<noteq> Undefined
      \<and> (marker (dir w) = marker (new_directive key) \<longrightarrow>
            map_of opts ''marker'' = Some (JBool False))"
proof -
  let ?opts = "filter (\<lambda>kv. snd kv \<noteq> Undefined) (build_options (dir w))"
  from attach_options [OF assms] obtain w' where
    w': "mapCreated_handler w = Done w'" "constructorCalls w' = constructorCalls w @ [?opts]"
    by blast
  have m: "map_of ?opts ''marker'' = Some (marker_val (marker (dir w)))"
    by (simp add: map_of_passed_options marker_entry marker_val_defined)
  have h: "has_key ?opts ''marker''"
    unfolding has_key_map_of m by simp
  have n: "marker_val (marker (dir w)) \<noteq> Undefined"
    by (rule marker_val_defined)
  have d: "marker (dir w) = marker (new_directive key) \<longrightarrow>
            map_of ?opts ''marker'' = Some (JBool False)"
    unfolding m marker_default by simp
  show ?thesis
    by (intro exI [of _ w'] exI [of _ ?opts] conjI) (fact w' h m n d)+
qed

theorem marker_always_passed_witness:
  "control (new_world (new_directive Null)) = None
   \<and> marker (dir (new_world (new_directive Null))) = marker (new_directive Null)
   \<and> map (\<lambda>opts. map_of opts ''marker'')
       (constructorCalls (settle (mapCreated_handler (new_world (new_directive Null)))))
     = [Some (JBool False)]"
proof -
  let ?d = "new_directive Null"
  have e: "marker (dir (new_world ?d)) = marker (new_directive Null)"
    by (simp add: new_world_def)
  from marker_always_passed [OF new_world_control, of ?d Null] e
  have "map (\<lambda>opts. map_of opts ''marker'')
       (constructorCalls (settle (mapCreated_handler (new_world ?d)))) = [Some (JBool False)]"
    by (auto simp: settle_Done new_world_calls)
  with e show ?thesis by (simp only: new_world_control simp_thms)
qed

text \<open>
  Claim C10. The fallback to the injected default happens for every falsy
  per-instance value: when \<^verbatim>\<open>accessToken\<close> is the empty string (or undefined) and the
  injected default is not \<^verbatim>\<open>undefined\<close>, the constructor receives the default under
  \<^verbatim>\<open>accessToken\<close>, not the empty string.
\<close>

theorem falsy_accessToken_falls_back:
  assumes "control w = None"
    and "\<not> truthy (opt_val JStr (accessToken (dir w)))"
    and "MAPBOX_GEOCODER_API_KEY (dir w) \<noteq> Undefined"
  shows "\<exists>w' opts. mapCreated_handler w = Done w'
      \<and> constructorCalls w' = constructorCalls w @ [opts]
      \<and> map_of opts ''accessToken'' = Some (MAPBOX_GEOCODER_API_KEY (dir w))"
proof -
  let ?opts = "filter (\<lambda>kv. snd kv \<noteq> Undefined) (build_options (dir w))"
  from attach_options [OF assms(1)] obtain w' where
    w': "mapCreated_handler w = Done w'" "constructorCalls w' = constructorCalls w @ [?opts]"
    by blast
  have a: "map_of ?opts ''accessToken'' = Some (MAPBOX_GEOCODER_API_KEY (dir w))"
    using assms(2,3) by (simp add: map_of_passed_options accessToken_entry js_or_def)
  show ?thesis
    by (intro exI [of _ w'] exI [of _ ?opts] conjI) (fact w' a)+
qed

theorem falsy_accessToken_falls_back_witness:
  "control (new_world ((new_directive (JStr ''B''))\<lparr>accessToken := Some ''''\<rparr>)) = None
   \<and> \<not> truthy (opt_val JStr (accessToken (dir
          (new_world ((new_directive (JStr ''B''))\<lparr>accessToken := Some ''''\<rparr>)))))
   \<and> MAPBOX_GEOCODER_API_KEY (dir
          (new_world ((new_directive (JStr ''B''))\<lparr>accessToken := Some ''''\<rparr>))) \<noteq> Undefined
   \<and> map (\<lambda>opts. map_of opts ''accessToken'')
       (constructorCalls (settle (mapCreated_handler
        (new_world ((new_directive (JStr ''B''))\<lparr>accessToken := Some ''''\<rparr>)))))
     = [Some (JStr ''B'')]"
proof -
  let ?d = "(new_directive (JStr ''B''))\<lparr>accessToken := Some ''''\<rparr>"
  have f: "\<not> truthy (opt_val JStr (accessToken (dir (new_world ?d))))"
    by (simp add: new_world_def new_directive_def opt_val_def)
  have k: "MAPBOX_GEOCODER_API_KEY (dir (new_world ?d)) = JStr ''B''"
    by (simp add: new_world_def new_directive_def)
  then have k': "MAPBOX_GEOCODER_API_KEY (dir (new_world ?d)) \<noteq> Undefined" by simp
  from falsy_accessToken_falls_back [OF new_world_control f k']
  have "map (\<lambda>opts. map_of opts ''accessToken'')
       (constructorCalls (settle (mapCreated_handler (new_world ?d)))) = [Some (JStr ''B'')]"
    by (auto simp: settle_Done new_world_calls k)
  with f k' show ?thesis by (simp only: new_world_control simp_thms)
qed

subsection \<open>The forwarders registered\<close>

lemma kinds_le_channels: "length (filter (kind_listened d) all_kinds) \<le> channels_with_listeners d"
  by (simp add: kind_listened_def all_kinds_def channels_with_listeners_def)

lemma kinds_less_channels:
  assumes "observed (results d) \<and> observed (geocoderResults d)
         \<or> observed (result d) \<and> observed (geocoderResult d)
         \<or> observed (error d) \<and> observed (geocoderError d)"
  shows "length (filter (kind_listened d) all_kinds) < channels_with_listeners d"
  using assms
  by (auto simp: kind_listened_def all_kinds_def channels_with_listeners_def)

lemma kinds_eq_channels:
  assumes "\<not> (observed (results d) \<and> observed (geocoderResults d))"
    and "\<not> (observed (result d) \<and> observed (geocoderResult d))"
    and "\<not> (observed (error d) \<and> observed (geocoderError d))"
  shows "length (filter (kind_listened d) all_kinds) = channels_with_listeners d"
  using assms
  by (auto simp: kind_listened_def all_kinds_def channels_with_listeners_def)

text \<open>
  Claim C8 (amended). At attachment \<^verbatim>\<open>on\<close> is called once for each of the five event
  kinds that has a listener on at least one of its outward channels, in the order
  results, result, error, loading, clear, and for no other kind. The number of
  \<^verbatim>\<open>on\<close> calls is the number of such kinds; it is at most the number of channels
  with listeners, and strictly smaller when one of the kinds results, result and
  error has listeners on both its current and its legacy channel.
\<close>

theorem forwarders_per_listened_kind:
  assumes "control w = None"
  shows "\<exists>w' g. mapCreated_handler w = Done w' \<and> geocoder (dir w') = Some g
      \<and> handlers g = filter (kind_listened (dir w)) all_kinds
      \<and> length (handlers g) = length (filter (kind_listened (dir w)) all_kinds)
      \<and> length (handlers g) \<le> channels_with_listeners (dir w)
      \<and> (observed (results (dir w)) \<and> observed (geocoderResults (dir w))
           \<or> observed (result (dir w)) \<and> observed (geocoderResult (dir w))
           \<or> observed (error (dir w)) \<and> observed (geocoderError (dir w))
          \<longrightarrow> length (handlers g) < channels_with_listeners (dir w))"
proof -
  from mapCreated_handler_Done [OF assms] obtain w' where
    w': "mapCreated_handler w = Done w'"
    "dir w' = (dir w)\<lparr>geocoder := Some (attached_widget w)\<rparr>"
    by blast
  have g: "geocoder (dir w') = Some (attached_widget w)"
    by (simp add: w'(2))
  have h: "handlers (attached_widget w) = filter (kind_listened (dir w)) all_kinds"
    by (simp add: attached_widget_def kinds_hooked_filter)
  then have l: "length (handlers (attached_widget w))
              = length (filter (kind_listened (dir w)) all_kinds)"
    by simp
  have c: "length (handlers (attached_widget w)) \<le> channels_with_listeners (dir w)"
    unfolding h by (rule kinds_le_channels)
  have b: "observed (results (dir w)) \<and> observed (geocoderResults (dir w))
           \<or> observed (result (dir w)) \<and> observed (geocoderResult (dir w))
           \<or> observed (error (dir w)) \<and> observed (geocoderError (dir w))
          \<longrightarrow> length (handlers (attached_widget w)) < channels_with_listeners (dir w)"
    unfolding h by (rule impI) (rule kinds_less_channels)
  show ?thesis
    by (intro exI [of _ w'] exI [of _ "attached_widget w"] conjI) (fact w'(1) g h l c b)+
qed

text \<open>
  The claim as stated fails with listeners on both \<^verbatim>\<open>results\<close> and
  \<^verbatim>\<open>geocoderResults\<close>: two channels have listeners and \<^verbatim>\<open>on\<close> is called once.
\<close>

theorem forwarders_count_counterexample:
  "map_option handlers (geocoder (dir (settle (mapCreated_handler (new_world
      ((new_directive Null)\<lparr>results := \<lparr>observers = 1, emitted = []\<rparr>,
                            geocoderResults := \<lparr>observers = 1, emitted = []\<rparr>\<rparr>))))))
     = Some [''results'']
   \<and> channels_with_listeners
      ((new_directive Null)\<lparr>results := \<lparr>observers = 1, emitted = []\<rparr>,
                            geocoderResults := \<lparr>observers = 1, emitted = []\<rparr>\<rparr>) = 2"
proof -
  let ?d = "(new_directive Null)\<lparr>results := \<lparr>observers = 1, emitted = []\<rparr>,
                            geocoderResults := \<lparr>observers = 1, emitted = []\<rparr>\<rparr>"
  from mapCreated_handler_Done [OF new_world_control, of ?d] obtain w' where
    w': "mapCreated_handler (new_world ?d) = Done w'"
    "dir w' = (dir (new_world ?d))\<lparr>geocoder := Some (attached_widget (new_world ?d))\<rparr>"
    by blast
  have k: "kinds_hooked (dir (new_world ?d)) = [''results'']"
    by (simp add: new_world_def new_directive_def kinds_hooked_def observed_def new_EventEmitter_def)
  have c: "channels_with_listeners ?d = 2"
    by (simp add: new_directive_def channels_with_listeners_def observed_def new_EventEmitter_def)
  from w' k c show ?thesis
    by (simp add: settle_Done attached_widget_def)
qed

theorem forwarders_per_listened_kind_witness:
  "control (new_world ((new_directive Null)\<lparr>clear := \<lparr>observers = 2, emitted = []\<rparr>,
                            result := \<lparr>observers = 1, emitted = []\<rparr>,
                            geocoderResult := \<lparr>observers = 3, emitted = []\<rparr>\<rparr>)) = None
   \<and> observed (result (dir (new_world ((new_directive Null)\<lparr>clear := \<lparr>observers = 2, emitted = []\<rparr>,
                            result := \<lparr>observers = 1, emitted = []\<rparr>,
                            geocoderResult := \<lparr>observers = 3, emitted = []\<rparr>\<rparr>))))
   \<and> observed (geocoderResult (dir (new_world ((new_directive Null)\<lparr>clear := \<lparr>observers = 2, emitted = []\<rparr>,
                            result := \<lparr>observers = 1, emitted = []\<rparr>,
                            geocoderResult := \<lparr>observers = 3, emitted = []\<rparr>\<rparr>))))
   \<and> map_option handlers (geocoder (dir (settle (mapCreated_handler (new_world
      ((new_directive Null)\<lparr>clear := \<lparr>observers = 2, emitted = []\<rparr>,
                            result := \<lparr>observers = 1, emitted = []\<rparr>,
                            geocoderResult := \<lparr>observers = 3, emitted = []\<rparr>\<rparr>))))))
     = Some [''result'', ''clear'']
   \<and> map_option (\<lambda>g. length (handlers g)) (geocoder (dir (settle (mapCreated_handler (new_world
      ((new_directive Null)\<lparr>clear := \<lparr>observers = 2, emitted = []\<rparr>,
                            result := \<lparr>observers = 1, emitted = []\<rparr>,
                            geocoderResult := \<lparr>observers = 3, emitted = []\<rparr>\<rparr>))))))
     = Some 2
   \<and> channels_with_listeners (dir (new_world
      ((new_directive Null)\<lparr>clear := \<lparr>observers = 2, emitted = []\<rparr>,
                            result := \<lparr>observers = 1, emitted = []\<rparr>,
                            geocoderResult := \<lparr>observers = 3, emitted = []\<rparr>\<rparr>))) = 3"
proof -
  let ?d = "(new_directive Null)\<lparr>clear := \<lparr>observers = 2, emitted = []\<rparr>,
                            result := \<lparr>observers = 1, emitted = []\<rparr>,
                            geocoderResult := \<lparr>observers = 3, emitted = []\<rparr>\<rparr>"
  have o1: "observed (result (dir (new_world ?d)))"
    and o2: "observed (geocoderResult (dir (new_world ?d)))"
    by (simp_all add: new_world_def observed_def)
  have k: "filter (kind_listened (dir (new_world ?d))) all_kinds = [''result'', ''clear'']"
    by (simp add: new_world_def new_directive_def kind_listened_def all_kinds_def
        observed_def new_EventEmitter_def)
  have n: "channels_with_listeners (dir (new_world ?d)) = 3"
    by (simp add: new_world_def new_directive_def channels_with_listeners_def
        observed_def new_EventEmitter_def)
  from forwarders_per_listened_kind [OF new_world_control, of ?d] obtain w' g where
    a: "mapCreated_handler (new_world ?d) = Done w'" "geocoder (dir w') = Some g"
       "handlers g = filter (kind_listened (dir (new_world ?d))) all_kinds"
       "observed (results (dir (new_world ?d))) \<and> observed (geocoderResults (dir (new_world ?d)))
           \<or> observed (result (dir (new_world ?d))) \<and> observed (geocoderResult (dir (new_world ?d)))
           \<or> observed (error (dir (new_world ?d))) \<and> observed (geocoderError (dir (new_world ?d)))
          \<longrightarrow> length (handlers g) < channels_with_listeners (dir (new_world ?d))"
    by blast
  from a(4) o1 o2 have lt: "length (handlers g) < channels_with_listeners (dir (new_world ?d))"
    by blast
  have h: "map_option handlers (geocoder (dir (settle (mapCreated_handler (new_world ?d)))))
          = Some [''result'', ''clear'']"
    unfolding a(1) settle_Done a(2) option.map a(3) k ..
  have l: "map_option (\<lambda>g. length (handlers g))
             (geocoder (dir (settle (mapCreated_handler (new_world ?d))))) = Some 2"
    unfolding a(1) settle_Done a(2) option.map a(3) k by simp
  from o1 o2 h l n show ?thesis by (simp only: new_world_control simp_thms)
qed

subsection \<open>Result events\<close>

lemma forwarder_result_dir:
  "dir (forwarder (ResultEvt i p) w) =
     (if lastResultId (dir w) \<noteq> i
      then (dir w)\<lparr>lastResultId := i,
                   geocoderResult := emit (ResultEvt i p) (geocoderResult (dir w)),
                   result := emit (ResultEvt i p) (result (dir w))\<rparr>
      else dir w)"
  by (simp add: zone_run_def emit_on_dir_def)

lemma forwarder_result_thrown: "thrown (forwarder (ResultEvt i p) w) = thrown w"
  by (simp add: zone_run_def emit_on_dir_def)

lemma widget_emits_result:
  assumes "geocoder (dir w) = Some g" and "handlers g = kinds_hooked d0"
    and "observed (geocoderResult d0) \<or> observed (result d0)"
  shows "widget_emits (ResultEvt i p) w = forwarder (ResultEvt i p) w"
  using assms unfolding widget_emits_def kinds_hooked_def
  by simp

lemma run_result_events:
  assumes "geocoder (dir w) = Some g" and "handlers g = kinds_hooked d0"
    and "observed (geocoderResult d0) \<or> observed (result d0)"
  shows "geocoder (dir (run w (map WidgetEmits (result_events rs)))) = Some g
       \<and> emitted (result (dir (run w (map WidgetEmits (result_events rs)))))
           = emitted (result (dir w)) @ drop_repeats (lastResultId (dir w)) (result_events rs)
       \<and> emitted (geocoderResult (dir (run w (map WidgetEmits (result_events rs)))))
           = emitted (geocoderResult (dir w)) @ drop_repeats (lastResultId (dir w)) (result_events rs)
       \<and> thrown (run w (map WidgetEmits (result_events rs))) = thrown w"
  using assms(1)
proof (induction rs arbitrary: w)
  case Nil
  then show ?case by (simp add: result_events_def)
next
  case (Cons r rs)
  obtain i p where r: "r = (i, p)" by (cases r)
  let ?w1 = "forwarder (ResultEvt i p) w"
  have s: "step w (WidgetEmits (ResultEvt i p)) = ?w1"
    by (simp add: settle_def widget_emits_result [OF Cons.prems assms(2,3)])
  have g1: "geocoder (dir ?w1) = Some g"
    using Cons.prems by (simp add: forwarder_result_dir del: forwarder.simps)
  have l1: "lastResultId (dir ?w1) = i"
    by (simp add: forwarder_result_dir del: forwarder.simps)
  have rn: "run w (map WidgetEmits (result_events (r # rs)))
          = run ?w1 (map WidgetEmits (result_events rs))"
    using s by (simp add: result_events_def r)
  show ?case
    unfolding rn using Cons.IH [OF g1]
    by (simp add: l1 forwarder_result_thrown del: forwarder.simps)
       (simp add: result_events_def r forwarder_result_dir emit_def del: forwarder.simps)
qed

lemma step_MapCreated:
  assumes "control w = None" and "mapCreatedSubs w = Suc 0"
  shows "\<exists>w'. step w MapCreated = w'
     \<and> dir w' = (dir w)\<lparr>geocoder := Some (attached_widget w)\<rparr>
     \<and> mapLoadedSubs w' = mapLoadedSubs w \<and> mapLoadedFired w' = mapLoadedFired w
     \<and> thrown w' = thrown w"
proof -
  let ?w0 = "w\<lparr>mapCreatedSubs := 0, mapCreatedFired := True\<rparr>"
  have c: "control ?w0 = None" using assms(1) by simp
  have a: "attached_widget ?w0 = attached_widget w" by (simp add: attached_widget_def)
  have s: "step w MapCreated = settle (mapCreated_handler ?w0)"
    using assms(2) by (simp add: mapCreated_fires_def)
  from mapCreated_handler_Done [OF c] show ?thesis
    unfolding s by (auto simp: settle_Done a)
qed

lemma new_world_attached:
  "\<exists>w'. step ((new_world d)\<lparr>mapCreatedSubs := Suc 0, mapLoadedSubs := k\<rparr>) MapCreated = w'
     \<and> dir w' = d\<lparr>geocoder := Some (attached_widget (new_world d))\<rparr>
     \<and> mapLoadedSubs w' = k \<and> \<not> mapLoadedFired w' \<and> thrown w' = []"
proof -
  let ?W = "(new_world d)\<lparr>mapCreatedSubs := Suc 0, mapLoadedSubs := k\<rparr>"
  have c: "control ?W = None" and m: "mapCreatedSubs ?W = Suc 0"
    by (simp_all add: new_world_def)
  have a: "attached_widget ?W = attached_widget (new_world d)"
    by (simp add: attached_widget_def new_world_def)
  from step_MapCreated [OF c m] show ?thesis
    by (simp add: a) (simp add: new_world_def)
qed

lemma attached_new_world:
  "geocoder (dir (run (new_world d) [NgAfterContentInit, MapCreated]))
     = Some (attached_widget (new_world d))
   \<and> dir (run (new_world d) [NgAfterContentInit, MapCreated])
     = d\<lparr>geocoder := Some (attached_widget (new_world d))\<rparr>
   \<and> mapLoadedSubs (run (new_world d) [NgAfterContentInit, MapCreated])
     = (if truthy (opt_val JStr (searchInput d)) then Suc 0 else 0)
   \<and> thrown (run (new_world d) [NgAfterContentInit, MapCreated]) = []"
proof -
  let ?k = "if truthy (opt_val JStr (searchInput d)) then Suc 0 else 0"
  have a: "step (new_world d) NgAfterContentInit
         = (new_world d)\<lparr>mapCreatedSubs := Suc 0, mapLoadedSubs := ?k\<rparr>"
    by (simp add: ngAfterContentInit_def subscribe_mapCreated_def subscribe_mapLoaded_def
        Let_def new_world_def)
  from new_world_attached [where d = d and k = ?k] obtain w' where
    w': "step ((new_world d)\<lparr>mapCreatedSubs := Suc 0, mapLoadedSubs := ?k\<rparr>) MapCreated = w'"
        "dir w' = d\<lparr>geocoder := Some (attached_widget (new_world d))\<rparr>"
        "mapLoadedSubs w' = ?k" "thrown w' = []"
    by blast
  have r: "run (new_world d) [NgAfterContentInit, MapCreated] = w'"
    by (simp only: run.simps a w'(1))
  show ?thesis unfolding r using w'(2,3,4) by simp
qed

lemma attached_calls:
  "proximities (attached_widget w) = []" "queries (attached_widget w) = []"
  by (simp_all add: proximities_def queries_def attached_widget_def)

text \<open>The ids \<open>drop_repeats\<close> keeps: adjacent duplicates are collapsed, nothing else.\<close>

lemma remdups_adj_hd: "remdups_adj (x # xs) = x # tl (remdups_adj (x # xs))"
  by (cases xs) (auto simp: remdups_adj_Cons split: list.splits)

lemma drop_repeats_ids:
  "map evt_id (drop_repeats l es) = tl (remdups_adj (l # map evt_id es))"
proof (induction es arbitrary: l)
  case Nil
  then show ?case by simp
next
  case (Cons e es)
  show ?case
    using remdups_adj_hd [of "evt_id e" "map evt_id es"]
    by (simp add: Cons.IH)
qed

text \<open>
  Claim C1 (amended). After an attachment with a listener on \<^verbatim>\<open>result\<close> or
  \<^verbatim>\<open>geocoderResult\<close>, a result event of the widget is emitted on both channels
  exactly when its id differs from \<^verbatim>\<open>lastResultId\<close>, which is the id of the result
  event just before it: a repeat that follows its original directly is dropped, and
  an id that comes back after another id is emitted again. (\<open>emitted\<close> is the log
  of the \<^verbatim>\<open>emit\<close> calls of a channel; a channel without observers notifies nobody.)
\<close>

theorem result_repeats_dropped:
  assumes "control w = None" and "mapCreatedSubs w = Suc 0"
    and "observed (result (dir w)) \<or> observed (geocoderResult (dir w))"
  shows "emitted (result (dir (run w (MapCreated # map WidgetEmits (result_events rs)))))
           = emitted (result (dir w)) @ drop_repeats (lastResultId (dir w)) (result_events rs)
       \<and> emitted (geocoderResult (dir (run w (MapCreated # map WidgetEmits (result_events rs)))))
           = emitted (geocoderResult (dir w)) @ drop_repeats (lastResultId (dir w)) (result_events rs)"
proof -
  from step_MapCreated [OF assms(1,2)] obtain w' where
    w': "step w MapCreated = w'"
        "dir w' = (dir w)\<lparr>geocoder := Some (attached_widget w)\<rparr>"
    by blast
  have g: "geocoder (dir w') = Some (attached_widget w)" by (simp add: w'(2))
  have h: "handlers (attached_widget w) = kinds_hooked (dir w)"
    by (simp add: attached_widget_def)
  have o: "observed (geocoderResult (dir w)) \<or> observed (result (dir w))"
    using assms(3) by blast
  have r: "run w (MapCreated # map WidgetEmits (result_events rs))
         = run w' (map WidgetEmits (result_events rs))"
    by (simp only: run.simps w'(1))
  from run_result_events [OF g h o, of rs] show ?thesis
    unfolding r by (simp add: w'(2))
qed

text \<open>
  The claim as stated fails on the ids X, Y, X: the third event is emitted, although
  its id has occurred before.
\<close>

theorem result_first_occurrence_counterexample:
  "emitted (result (dir (run
      ((new_world ((new_directive Null)\<lparr>result := \<lparr>observers = 2, emitted = []\<rparr>\<rparr>))
          \<lparr>mapCreatedSubs := Suc 0, mapLoadedSubs := 0\<rparr>)
      [MapCreated,
       WidgetEmits (ResultEvt (Some (IdStr ''X'')) 1),
       WidgetEmits (ResultEvt (Some (IdStr ''Y'')) 2),
       WidgetEmits (ResultEvt (Some (IdStr ''X'')) 3)])))
    = [ResultEvt (Some (IdStr ''X'')) 1, ResultEvt (Some (IdStr ''Y'')) 2,
       ResultEvt (Some (IdStr ''X'')) 3]
   \<and> first_occurrences []
        [ResultEvt (Some (IdStr ''X'')) 1, ResultEvt (Some (IdStr ''Y'')) 2,
         ResultEvt (Some (IdStr ''X'')) 3]
    = [ResultEvt (Some (IdStr ''X'')) 1, ResultEvt (Some (IdStr ''Y'')) 2]"
proof -
  let ?d = "(new_directive Null)\<lparr>result := \<lparr>observers = 2, emitted = []\<rparr>\<rparr>"
  let ?W = "(new_world ?d)\<lparr>mapCreatedSubs := Suc 0, mapLoadedSubs := 0\<rparr>"
  let ?rs = "[(Some (IdStr ''X''), 1), (Some (IdStr ''Y''), 2), (Some (IdStr ''X''), 3)]"
  from new_world_attached [where d = ?d and k = 0] obtain w' where
    w': "step ?W MapCreated = w'"
        "dir w' = ?d\<lparr>geocoder := Some (attached_widget (new_world ?d))\<rparr>"
    by blast
  have g: "geocoder (dir w') = Some (attached_widget (new_world ?d))" by (simp add: w'(2))
  have h: "handlers (attached_widget (new_world ?d)) = kinds_hooked ?d"
    by (simp add: attached_widget_def new_world_def)
  have o: "observed (geocoderResult ?d) \<or> observed (result ?d)"
    by (simp add: observed_def)
  have l: "lastResultId (dir w') = None" "emitted (result (dir w')) = []"
    by (simp_all add: w'(2) new_directive_def)
  have e: "map WidgetEmits (result_events ?rs)
         = [WidgetEmits (ResultEvt (Some (IdStr ''X'')) 1),
            WidgetEmits (ResultEvt (Some (IdStr ''Y'')) 2),
            WidgetEmits (ResultEvt (Some (IdStr ''X'')) 3)]"
    by (simp add: result_events_def)
  have r: "run ?W (MapCreated # map WidgetEmits (result_events ?rs))
         = run w' (map WidgetEmits (result_events ?rs))"
    by (simp only: run.simps w'(1))
  from run_result_events [OF g h o, of ?rs]
  have "emitted (result (dir (run ?W (MapCreated # map WidgetEmits (result_events ?rs)))))
          = drop_repeats None (result_events ?rs)"
    unfolding r by (simp add: l)
  then show ?thesis
    unfolding e by (simp add: result_events_def)
qed

theorem result_repeats_dropped_witness:
  "control ((new_world ((new_directive Null)\<lparr>result := \<lparr>observers = 2, emitted = []\<rparr>\<rparr>))
          \<lparr>mapCreatedSubs := Suc 0\<rparr>) = None
   \<and> mapCreatedSubs ((new_world ((new_directive Null)\<lparr>result := \<lparr>observers = 2, emitted = []\<rparr>\<rparr>))
          \<lparr>mapCreatedSubs := Suc 0\<rparr>) = Suc 0
   \<and> observed (result (dir ((new_world ((new_directive Null)\<lparr>result := \<lparr>observers = 2, emitted = []\<rparr>\<rparr>))
          \<lparr>mapCreatedSubs := Suc 0\<rparr>)))
   \<and> emitted (result (dir (run
      ((new_world ((new_directive Null)\<lparr>result := \<lparr>observers = 2, emitted = []\<rparr>\<rparr>))
          \<lparr>mapCreatedSubs := Suc 0\<rparr>)
      [MapCreated,
       WidgetEmits (ResultEvt (Some (IdStr ''X'')) 1),
       WidgetEmits (ResultEvt (Some (IdStr ''X'')) 2),
       WidgetEmits (ResultEvt (Some (IdStr ''Y'')) 3)])))
    = [ResultEvt (Some (IdStr ''X'')) 1, ResultEvt (Some (IdStr ''Y'')) 3]"
proof -
  let ?d = "(new_directive Null)\<lparr>result := \<lparr>observers = 2, emitted = []\<rparr>\<rparr>"
  let ?W = "(new_world ?d)\<lparr>mapCreatedSubs := Suc 0\<rparr>"
  let ?rs = "[(Some (IdStr ''X''), 1), (Some (IdStr ''X''), 2), (Some (IdStr ''Y''), 3)]"
  have c: "control ?W = None" and m: "mapCreatedSubs ?W = Suc 0"
    by (simp_all add: new_world_def)
  have o: "observed (result (dir ?W))"
    by (simp add: new_world_def observed_def)
  then have o': "observed (result (dir ?W)) \<or> observed (geocoderResult (dir ?W))" ..
  have l: "lastResultId (dir ?W) = None" "emitted (result (dir ?W)) = []"
    by (simp_all add: new_world_def new_directive_def)
  have e: "map WidgetEmits (result_events ?rs)
         = [WidgetEmits (ResultEvt (Some (IdStr ''X'')) 1),
            WidgetEmits (ResultEvt (Some (IdStr ''X'')) 2),
            WidgetEmits (ResultEvt (Some (IdStr ''Y'')) 3)]"
    by (simp add: result_events_def)
  have "emitted (result (dir (run ?W (MapCreated # map WidgetEmits (result_events ?rs)))))
          = emitted (result (dir ?W)) @ drop_repeats (lastResultId (dir ?W)) (result_events ?rs)"
    using result_repeats_dropped [OF c m o', of ?rs] by (rule conjunct1)
  then have "emitted (result (dir (run ?W (MapCreated # map WidgetEmits (result_events ?rs)))))
          = drop_repeats None (result_events ?rs)"
    by (simp only: l append_Nil)
  then have "emitted (result (dir (run ?W (MapCreated # map WidgetEmits (result_events ?rs)))))
          = [ResultEvt (Some (IdStr ''X'')) 1, ResultEvt (Some (IdStr ''Y'')) 3]"
    by (simp add: result_events_def)
  with c m o show ?thesis
    unfolding e by (simp only: simp_thms)
qed

subsection \<open>The initial query\<close>





subsection \<open>Changes\<close>

lemma proximities_setProximity: "proximities (setProximity p g) = proximities g @ [p]"
  by (simp add: proximities_def setProximity_def)

lemma proximities_query: "proximities (query q g) = proximities g"
  by (simp add: proximities_def query_def)

lemma queries_setProximity: "queries (setProximity p g) = queries g"
  by (simp add: queries_def setProximity_def)

lemma queries_query: "queries (query q g) = queries g @ [q]"
  by (simp add: queries_def query_def)

lemma ngOnChanges_proximity:
  assumes "geocoder (dir w) = Some g" and "map_of changes ''proximity'' = Some c"
  shows "\<exists>g'. geocoder (dir (ngOnChanges changes w)) = Some g'
      \<and> proximities g' = proximities g @ (if firstChange c then [] else [currentValue c])"
  using assms
  by (simp add: ngOnChanges_def Let_def proximities_setProximity proximities_query
      split: option.splits)

text \<open>
  Claim C5 (amended). After attachment, a change notification that holds a change
  of \<^verbatim>\<open>proximity\<close> forwards \<^verbatim>\<open>currentValue\<close>, unmodified, to \<^verbatim>\<open>setProximity\<close>
  exactly when the change record is not flagged as the first change of the input
  (\<^verbatim>\<open>isFirstChange()\<close> is false); a record flagged as the first change forwards
  nothing. The position of the notification among those after attachment plays no
  part.
\<close>

theorem proximity_forwarded_unless_firstChange:
  assumes "geocoder (dir w) = Some g" and "map_of changes ''proximity'' = Some c"
  shows "\<exists>g'. geocoder (dir (ngOnChanges changes w)) = Some g'
      \<and> proximities g' = proximities g @ (if firstChange c then [] else [currentValue c])"
  using assms by (rule ngOnChanges_proximity)

text \<open>
  The claim as stated fails when \<^verbatim>\<open>proximity\<close> was bound before the attachment: the
  first change notification after the attachment carries a record that is not a
  first change, and its value is forwarded.
\<close>

theorem proximity_first_after_attachment_counterexample:
  "map_option proximities (geocoder (dir (run
      (new_world ((new_directive Null)\<lparr>proximity := Some (0, 0)\<rparr>))
      [NgAfterContentInit, MapCreated, AssignProximity (Some (1, 2)),
       NgOnChanges [(''proximity'',
          \<lparr>previousValue = JLngLat 0 0, currentValue = JLngLat 1 2, firstChange = False\<rparr>)]])))
    = Some [JLngLat 1 2]"
proof -
  let ?d = "(new_directive Null)\<lparr>proximity := Some (0, 0)\<rparr>"
  let ?w1 = "run (new_world ?d) [NgAfterContentInit, MapCreated]"
  let ?ch = "[(''proximity'',
          \<lparr>previousValue = JLngLat 0 0, currentValue = JLngLat 1 2, firstChange = False\<rparr>)]"
  from attached_new_world [of ?d]
  have g: "geocoder (dir ?w1) = Some (attached_widget (new_world ?d))"
    by (rule conjunct1)
  let ?w2 = "?w1\<lparr>dir := (dir ?w1)\<lparr>proximity := Some (1, 2)\<rparr>\<rparr>"
  have g2: "geocoder (dir ?w2) = Some (attached_widget (new_world ?d))"
    using g by simp
  have m: "map_of ?ch ''proximity''
         = Some \<lparr>previousValue = JLngLat 0 0, currentValue = JLngLat 1 2, firstChange = False\<rparr>"
    by simp
  have r: "run (new_world ?d) [NgAfterContentInit, MapCreated, AssignProximity (Some (1, 2)),
       NgOnChanges ?ch] = ngOnChanges ?ch ?w2"
  proof -
    have "run (new_world ?d) [NgAfterContentInit, MapCreated, AssignProximity (Some (1, 2)),
            NgOnChanges ?ch] = run ?w1 [AssignProximity (Some (1, 2)), NgOnChanges ?ch]"
      by (simp only: run.simps)
    also have "\<dots> = ngOnChanges ?ch ?w2"
      by (simp only: run.simps step.simps settle_Done)
    finally show ?thesis .
  qed
  have p: "proximities (attached_widget (new_world ?d)) = []"
    by (simp add: proximities_def attached_widget_def)
  from ngOnChanges_proximity [OF g2 m] show ?thesis
    unfolding r by (auto simp: p)
qed

theorem proximity_forwarded_unless_firstChange_witness:
  "geocoder (dir (run (new_world (new_directive Null)) [NgAfterContentInit, MapCreated]))
     = Some (attached_widget (new_world (new_directive Null)))
   \<and> map_of [(''proximity'',
          \<lparr>previousValue = JLngLat 0 0, currentValue = JLngLat 1 2, firstChange = False\<rparr>)]
        ''proximity''
     = Some \<lparr>previousValue = JLngLat 0 0, currentValue = JLngLat 1 2, firstChange = False\<rparr>
   \<and> map_option proximities (geocoder (dir (ngOnChanges
        [(''proximity'',
          \<lparr>previousValue = JLngLat 0 0, currentValue = JLngLat 1 2, firstChange = False\<rparr>)]
        (run (new_world (new_directive Null)) [NgAfterContentInit, MapCreated]))))
     = Some [JLngLat 1 2]
   \<and> map_option proximities (geocoder (dir (ngOnChanges
        [(''proximity'',
          \<lparr>previousValue = Undefined, currentValue = JLngLat 1 2, firstChange = True\<rparr>)]
        (run (new_world (new_directive Null)) [NgAfterContentInit, MapCreated]))))
     = Some []"
proof -
  let ?w1 = "run (new_world (new_directive Null)) [NgAfterContentInit, MapCreated]"
  let ?c = "\<lparr>previousValue = JLngLat 0 0, currentValue = JLngLat 1 2, firstChange = False\<rparr>"
  let ?f = "\<lparr>previousValue = Undefined, currentValue = JLngLat 1 2, firstChange = True\<rparr>"
  from attached_new_world [of "new_directive Null"]
  have g: "geocoder (dir ?w1) = Some (attached_widget (new_world (new_directive Null)))"
    by (rule conjunct1)
  have m: "map_of [(''proximity'', ?c)] ''proximity'' = Some ?c" by simp
  have n: "map_of [(''proximity'', ?f)] ''proximity'' = Some ?f" by simp
  from proximity_forwarded_unless_firstChange [OF g m]
  have a: "map_option proximities (geocoder (dir (ngOnChanges [(''proximity'', ?c)] ?w1)))
         = Some [JLngLat 1 2]"
    by (elim exE conjE) (simp add: attached_calls)
  from proximity_forwarded_unless_firstChange [OF g n]
  have b: "map_option proximities (geocoder (dir (ngOnChanges [(''proximity'', ?f)] ?w1)))
         = Some []"
    by (elim exE conjE) (simp add: attached_calls)
  from g m a b show ?thesis by (simp only: simp_thms)
qed

text \<open>
  Claim C6. After attachment, every change notification that holds a change of
  \<^verbatim>\<open>searchInput\<close> issues one query, whether or not the record is flagged as the first
  change. The value queried is the field \<^verbatim>\<open>searchInput\<close>, which holds the new value
  when the framework has assigned the input before the notification.
\<close>

theorem searchInput_change_queries:
  assumes "geocoder (dir w) = Some g" and "map_of changes ''searchInput'' = Some c"
  shows "(\<exists>g'. geocoder (dir (ngOnChanges changes w)) = Some g'
            \<and> queries g' = queries g @ [searchInput (dir w)])
       \<and> (\<exists>g'. geocoder (dir (run w [AssignSearchInput v, NgOnChanges changes])) = Some g'
            \<and> queries g' = queries g @ [v])"
proof -
  have 1: "\<exists>g'. geocoder (dir (ngOnChanges changes w)) = Some g'
            \<and> queries g' = queries g @ [searchInput (dir w)]"
    using assms
    by (simp add: ngOnChanges_def Let_def queries_setProximity queries_query
        split: option.splits)
  have 2: "\<exists>g'. geocoder (dir (run w [AssignSearchInput v, NgOnChanges changes])) = Some g'
            \<and> queries g' = queries g @ [v]"
    using assms
    by (simp add: settle_Done ngOnChanges_def Let_def queries_setProximity queries_query
        split: option.splits)
  from 1 2 show ?thesis ..
qed

theorem searchInput_change_queries_witness:
  "geocoder (dir (run (new_world (new_directive Null)) [NgAfterContentInit, MapCreated]))
     = Some (attached_widget (new_world (new_directive Null)))
   \<and> map_of [(''searchInput'',
          \<lparr>previousValue = Undefined, currentValue = JStr ''oslo'', firstChange = True\<rparr>)]
        ''searchInput''
     = Some \<lparr>previousValue = Undefined, currentValue = JStr ''oslo'', firstChange = True\<rparr>
   \<and> map_option queries (geocoder (dir (run
        (run (new_world (new_directive Null)) [NgAfterContentInit, MapCreated])
        [AssignSearchInput (Some ''oslo''),
         NgOnChanges [(''searchInput'',
          \<lparr>previousValue = Undefined, currentValue = JStr ''oslo'', firstChange = True\<rparr>)]])))
     = Some [Some ''oslo'']"
proof -
  let ?w1 = "run (new_world (new_directive Null)) [NgAfterContentInit, MapCreated]"
  let ?c = "\<lparr>previousValue = Undefined, currentValue = JStr ''oslo'', firstChange = True\<rparr>"
  from attached_new_world [of "new_directive Null"]
  have g: "geocoder (dir ?w1) = Some (attached_widget (new_world (new_directive Null)))"
    by (rule conjunct1)
  have m: "map_of [(''searchInput'', ?c)] ''searchInput'' = Some ?c" by simp
  from searchInput_change_queries [OF g m, of "Some ''oslo''"]
  have "\<exists>g'. geocoder (dir (run ?w1 [AssignSearchInput (Some ''oslo''),
                 NgOnChanges [(''searchInput'', ?c)]])) = Some g'
            \<and> queries g' = queries (attached_widget (new_world (new_directive Null)))
                  @ [Some ''oslo'']"
    by (rule conjunct2)
  then have a: "map_option queries (geocoder (dir (run ?w1 [AssignSearchInput (Some ''oslo''),
                 NgOnChanges [(''searchInput'', ?c)]]))) = Some [Some ''oslo'']"
    by (elim exE conjE) (simp only: option.map attached_calls append_Nil)
  from g m a show ?thesis by (simp only: simp_thms)
qed

end
